theory Spec2Isabelle
  imports Complex_Main
begin

section \<open>Data model\<close>

text \<open>
  The resolvers of \<^verbatim>\<open>src/graphql/resolvers.js\<close> work on Mongoose documents. A stored
  reference is a BSON ObjectId, an object whose \<^verbatim>\<open>toString()\<close> is its hexadecimal text;
  the \<^verbatim>\<open>id\<close> getter of a document is that text, a string.
\<close>

datatype objectId = ObjectId string

fun toString :: "objectId \<Rightarrow> string" where
  "toString (ObjectId h) = h"

text \<open>A location carries \<^verbatim>\<open>lat\<close> and \<^verbatim>\<open>lon\<close>; the resolvers only store and forward them.\<close>

record location =
  lat :: real
  lon :: real

text \<open>
  \<^verbatim>\<open>src/models/user.js\<close>: name, email, password, the most recent location and the
  beacons of the user. Email, password and location are absent until they are set.
\<close>

record user =
  user_id :: objectId
  name :: string
  email :: "string option"
  password :: "string option"
  user_location :: "location option"
  user_beacons :: "objectId list"

text \<open>
  Modelled from the spec: the Beacon model (\<^verbatim>\<open>models/beacon.js\<close>) is imported by the
  resolvers and is not among the sources. Its fields are those of the data model: the
  shortcode, the leader (one user reference), the followers (user references), the
  current location, the landmark references and the expiry time. Times are
  milliseconds since the epoch.
\<close>

record beacon =
  beacon_id :: objectId
  shortcode :: string
  leader :: objectId
  followers :: "objectId list"
  location :: location
  landmarks :: "objectId list"
  expiresAt :: int

text \<open>
  What a resolver returns instead of a value: \<^verbatim>\<open>new UserInputError(..)\<close>,
  \<^verbatim>\<open>new AuthenticationError(..)\<close>, a plain \<^verbatim>\<open>new Error(..)\<close>, or a \<^verbatim>\<open>TypeError\<close>
  raised by a property read on \<^verbatim>\<open>null\<close> or \<^verbatim>\<open>undefined\<close>. The GraphQL executor
  reports a returned \<^verbatim>\<open>Error\<close> object as the failure of the field, so both are the left
  summand of the result.
\<close>

datatype error =
    UserInputError string
  | AuthenticationError string
  | Error string
  | TypeError string

text \<open>The payloads handed to \<^verbatim>\<open>pubsub.publish\<close>, each with the \<^verbatim>\<open>beaconID\<close> it is scoped to.\<close>

datatype payload =
    BeaconLocationPayload location string
  | UserLocationPayload user string
  | BeaconJoinedPayload user string

fun beaconID :: "payload \<Rightarrow> string" where
  "beaconID (BeaconLocationPayload l b) = b"
| "beaconID (UserLocationPayload u b) = b"
| "beaconID (BeaconJoinedPayload u b) = b"

text \<open>\<^verbatim>\<open>payload.userLocation\<close> is \<^verbatim>\<open>undefined\<close> on a payload without that key.\<close>

fun userLocation_of :: "payload \<Rightarrow> user option" where
  "userLocation_of (UserLocationPayload u b) = Some u"
| "userLocation_of (BeaconLocationPayload l b) = None"
| "userLocation_of (BeaconJoinedPayload u b) = None"

text \<open>
  The state the resolvers read and change: the two collections in insertion order, the
  events published so far (topic and payload, oldest first), and the number of calls made
  to the shortcode generator.
\<close>

record state =
  users :: "user list"
  beacons :: "beacon list"
  events :: "(string \<times> payload) list"
  draws :: nat

section \<open>Store access\<close>

definition user_id_string :: "user \<Rightarrow> string" where
  \<comment> \<open>\<^verbatim>\<open>user.id\<close>\<close>
  "user_id_string u = toString (user_id u)"

definition beacon_id_string :: "beacon \<Rightarrow> string" where
  \<comment> \<open>\<^verbatim>\<open>beacon.id\<close>\<close>
  "beacon_id_string b = toString (beacon_id b)"

definition Beacon_findById :: "beacon list \<Rightarrow> string \<Rightarrow> beacon option" where
  "Beacon_findById bs i = find (\<lambda>b. beacon_id_string b = i) bs"

definition Beacon_findOne_shortcode :: "beacon list \<Rightarrow> string \<Rightarrow> beacon option" where
  "Beacon_findOne_shortcode bs c = find (\<lambda>b. shortcode b = c) bs"

definition Beacon_find_active :: "beacon list \<Rightarrow> int \<Rightarrow> beacon list" where
  \<comment> \<open>\<^verbatim>\<open>Beacon.find({ expiresAt: { $gte: new Date() } })\<close>\<close>
  "Beacon_find_active bs now = filter (\<lambda>b. now \<le> expiresAt b) bs"

definition User_findById :: "user list \<Rightarrow> string \<Rightarrow> user option" where
  "User_findById us i = find (\<lambda>u. user_id_string u = i) us"

definition User_findOne_email :: "user list \<Rightarrow> string \<Rightarrow> user option" where
  "User_findOne_email us e = find (\<lambda>u. email u = Some e) us"

text \<open>
  \<^verbatim>\<open>doc.save()\<close> writes the document over the stored one with the same \<^verbatim>\<open>_id\<close>, or adds
  it to the collection when there is none.
\<close>

fun save_beacon :: "beacon \<Rightarrow> beacon list \<Rightarrow> beacon list" where
  "save_beacon b [] = [b]"
| "save_beacon b (x # xs) =
     (if beacon_id x = beacon_id b then b # xs else x # save_beacon b xs)"

fun save_user :: "user \<Rightarrow> user list \<Rightarrow> user list" where
  "save_user u [] = [u]"
| "save_user u (x # xs) =
     (if user_id x = user_id u then u # xs else x # save_user u xs)"

definition publish :: "string \<Rightarrow> payload \<Rightarrow> state \<Rightarrow> state" where
  "publish topic p st = st\<lparr>events := events st @ [(topic, p)]\<rparr>"

section \<open>JavaScript comparisons\<close>

text \<open>
  The operands the resolvers compare are strings (\<^verbatim>\<open>user.id\<close>, \<^verbatim>\<open>beacon.id\<close>, an
  argument of type ID), ObjectId objects (a stored \<^verbatim>\<open>leader\<close>, an element of
  \<^verbatim>\<open>followers\<close>) and the user document of the request context.
\<close>

datatype jsval = JString string | JObjectId objectId | JUser user

text \<open>
  \<^verbatim>\<open>x === y\<close>: operands of different types are not equal, strings are equal when
  their text is, and an object is equal to itself only. The object operands of the
  resolvers are a reference read from a loaded beacon on one side and the context's
  user on the other, never one object twice, so two object operands are unequal.
\<close>

fun strict_equals :: "jsval \<Rightarrow> jsval \<Rightarrow> bool" where
  "strict_equals (JString a) (JString b) = (a = b)"
| "strict_equals x y = False"

text \<open>
  \<^verbatim>\<open>x == y\<close>: as \<^verbatim>\<open>===\<close> on two strings and on two objects; an ObjectId compared with a
  string is converted by its \<^verbatim>\<open>toString()\<close> first. A document is never compared with
  a string by the resolvers.
\<close>

fun loose_equals :: "jsval \<Rightarrow> jsval \<Rightarrow> bool" where
  "loose_equals (JString a) (JString b) = (a = b)"
| "loose_equals (JObjectId x) (JString b) = (toString x = b)"
| "loose_equals (JString a) (JObjectId y) = (a = toString y)"
| "loose_equals x y = False"

text \<open>
  \<^verbatim>\<open>array.includes(obj)\<close> on a Mongoose array is \<^verbatim>\<open>indexOf(obj) !== -1\<close>, and
  \<^verbatim>\<open>indexOf\<close> replaces an ObjectId argument by its string and then looks for an
  element with \<^verbatim>\<open>obj == this[i]\<close>.
\<close>

fun indexOf_argument :: "jsval \<Rightarrow> jsval" where
  "indexOf_argument (JObjectId x) = JString (toString x)"
| "indexOf_argument v = v"

definition array_includes :: "objectId list \<Rightarrow> jsval \<Rightarrow> bool" where
  "array_includes xs obj = list_ex (\<lambda>x. loose_equals (indexOf_argument obj) (JObjectId x)) xs"

text \<open>A string is falsy when it is absent or empty.\<close>

fun truthy :: "string option \<Rightarrow> bool" where
  "truthy None = False"
| "truthy (Some s) = (s \<noteq> [])"

section \<open>Query resolvers\<close>

text \<open>
  \<^verbatim>\<open>Query.beacon\<close>. The beacon is loaded with its landmarks populated; \<^verbatim>\<open>leader\<close> and
  \<^verbatim>\<open>followers\<close> stay references.
\<close>

definition Query_beacon :: "string \<Rightarrow> user \<Rightarrow> state \<Rightarrow> error + beacon" where
  "Query_beacon i user st =
     (case Beacon_findById (beacons st) i of
        None \<Rightarrow> Inl (UserInputError ''No beacon exists with that id.'')
      | Some b \<Rightarrow>
          if strict_equals (JObjectId (leader b)) (JString (user_id_string user))
             \<or> array_includes (followers b) (JUser user)
          then Inl (Error ''User should be a part of beacon'')
          else Inr b)"


text \<open>
  \<^verbatim>\<open>nearbyBeacons\<close>: the active beacons are visited in order and the ones within 1500
  metres of the query point are pushed onto \<^verbatim>\<open>nearby\<close>. \<^verbatim>\<open>isPointWithinRadius\<close> belongs to
  the geolib package and is a parameter; it is given the \<^verbatim>\<open>lat\<close> and \<^verbatim>\<open>lon\<close> of the
  beacon's location only.
\<close>

definition nearby_step ::
  "(location \<Rightarrow> location \<Rightarrow> nat \<Rightarrow> bool) \<Rightarrow> location \<Rightarrow> beacon list \<Rightarrow> beacon \<Rightarrow> beacon list" where
  "nearby_step isPointWithinRadius loc nearby b =
     (if isPointWithinRadius \<lparr>lat = lat (location b), lon = lon (location b)\<rparr> loc 1500
      then nearby @ [b] else nearby)"

definition nearbyBeacons ::
  "(location \<Rightarrow> location \<Rightarrow> nat \<Rightarrow> bool) \<Rightarrow> int \<Rightarrow> location \<Rightarrow> state \<Rightarrow> beacon list" where
  "nearbyBeacons isPointWithinRadius now loc st =
     foldl (nearby_step isPointWithinRadius loc) [] (Beacon_find_active (beacons st) now)"

text \<open>A concrete distance test for evaluation: both differences below the radius.\<close>

definition demo_within :: "location \<Rightarrow> location \<Rightarrow> nat \<Rightarrow> bool" where
  "demo_within p c r = (\<bar>lat p - lat c\<bar> < real r \<and> \<bar>lon p - lon c\<bar> < real r)"

section \<open>Mutation resolvers\<close>

text \<open>
  \<^verbatim>\<open>login\<close>. \<^verbatim>\<open>bcrypt.compare\<close> is a parameter; it rejects when the stored hash is
  missing. The token is modelled by what \<^verbatim>\<open>jwt.sign\<close> is given: the claims, the subject
  and the lifetime.
\<close>

record credentials =
  cred_email :: string
  cred_password :: string

record token =
  anon :: bool
  token_email :: "string option"
  subject :: string
  expiresIn :: string

definition jwt_sign :: "bool \<Rightarrow> string option \<Rightarrow> user \<Rightarrow> token" where
  "jwt_sign a e u = \<lparr>anon = a, token_email = e, subject = user_id_string u, expiresIn = ''7d''\<rparr>"

definition login_find_user :: "string option \<Rightarrow> credentials option \<Rightarrow> state \<Rightarrow> user option" where
  \<comment> \<open>\<^verbatim>\<open>id ? await User.findById(id) : await User.findOne({ email })\<close>; the resolver has
      returned before this line when both are missing\<close>
  "login_find_user i creds st =
     (case (truthy i, i, creds) of
        (True, Some s, _) \<Rightarrow> User_findById (users st) s
      | (_, _, Some c) \<Rightarrow> User_findOne_email (users st) (cred_email c)
      | (_, _, None) \<Rightarrow> None)"

definition login ::
  "(string \<Rightarrow> string \<Rightarrow> bool) \<Rightarrow> string option \<Rightarrow> credentials option \<Rightarrow> state \<Rightarrow> error + token" where
  "login bcrypt_compare i creds st =
     (if \<not> truthy i \<and> creds = None
      then Inl (UserInputError ''One of ID and credentials required'')
      else
        (case login_find_user i creds st of
           None \<Rightarrow> Inl (Error ''User not found.'')
         | Some u \<Rightarrow>
             if truthy (email u) \<and> creds = None
             then Inl (UserInputError ''Email/password required to login'')
             else
               (case creds of
                  None \<Rightarrow> Inr (jwt_sign True None u)
                | Some c \<Rightarrow>
                    if email u \<noteq> Some (cred_email c)
                    then Inl (AuthenticationError ''credentials don't match'')
                    else
                      (case password u of
                         None \<Rightarrow> Inl (Error ''Illegal arguments: string, undefined'')
                       | Some h \<Rightarrow>
                           if \<not> bcrypt_compare (cred_password c) h
                           then Inl (AuthenticationError ''credentials don't match'')
                           else Inr (jwt_sign False
                                  (if cred_email c \<noteq> [] then Some (cred_email c) else None) u)))))"

text \<open>
  Modelled from the spec: the input of \<^verbatim>\<open>createBeacon\<close> has the type that the schema
  (\<^verbatim>\<open>schema.js\<close>) declares, and the schema is not among the sources. The spec gives the
  input a start location, and the data model requires an expiry time of every beacon.
  The three optional fields stand for the keys \<^verbatim>\<open>leader\<close>, \<^verbatim>\<open>shortcode\<close> and
  \<^verbatim>\<open>location\<close>, which the object handed to the resolver owns or does not own.
\<close>

record beaconInput =
  input_expiresAt :: int
  startLocation :: location
  input_leader :: "string option"
  input_shortcode :: "string option"
  input_location :: "location option"

definition spread :: "'a \<Rightarrow> 'a option \<Rightarrow> 'a" where
  \<comment> \<open>the value of a key set by the literal and then by the spread object\<close>
  "spread v own = (case own of None \<Rightarrow> v | Some w \<Rightarrow> w)"

text \<open>
  \<^verbatim>\<open>createBeacon\<close>. The argument of \<^verbatim>\<open>new Beacon\<close> is the object literal
  \<^verbatim>\<open>{ leader: user.id, shortcode: nanoid(), location: beacon.startLocation, ...beacon }\<close>:
  a key of \<^verbatim>\<open>beacon\<close>, spread after a key of the same name, replaces its value.
  \<^verbatim>\<open>nanoid\<close> is the generator made by \<^verbatim>\<open>customAlphabet(alphabet, 6)\<close>; the parameter
  gives the code returned by each of its calls, counted from 0, and the resolver calls
  it once. The \<^verbatim>\<open>_id\<close> of the new document is a parameter as well.
\<close>

definition createBeacon ::
  "(nat \<Rightarrow> string) \<Rightarrow> objectId \<Rightarrow> beaconInput \<Rightarrow> user \<Rightarrow> state \<Rightarrow> beacon \<times> state" where
  "createBeacon nanoid new_id input user st =
     (let code = nanoid (draws st);
          st0 = st\<lparr>draws := Suc (draws st)\<rparr>;
          beaconDoc = \<lparr>beacon_id = new_id,
                       shortcode = spread code (input_shortcode input),
                       leader = ObjectId (spread (user_id_string user) (input_leader input)),
                       followers = [],
                       location = spread (startLocation input) (input_location input),
                       landmarks = [],
                       expiresAt = input_expiresAt input\<rparr>;
          st1 = st0\<lparr>beacons := save_beacon beaconDoc (beacons st0)\<rparr>;
          user1 = user\<lparr>user_beacons := user_beacons user @ [beacon_id beaconDoc]\<rparr>
      in (beaconDoc, st1\<lparr>users := save_user user1 (users st1)\<rparr>))"

text \<open>\<^verbatim>\<open>joinBeacon\<close>.\<close>

definition joinBeacon :: "string \<Rightarrow> user \<Rightarrow> state \<Rightarrow> (error + beacon) \<times> state" where
  "joinBeacon code user st =
     (case Beacon_findOne_shortcode (beacons st) code of
        None \<Rightarrow> (Inl (UserInputError ''No beacon exists with that shortcode.''), st)
      | Some b \<Rightarrow>
          if array_includes (followers b) (JUser user)
          then (Inl (Error ''Already following the beacon''), st)
          else
            (let b1 = b\<lparr>followers := followers b @ [user_id user]\<rparr>;
                 st1 = st\<lparr>beacons := save_beacon b1 (beacons st)\<rparr>;
                 st2 = publish ''BEACON_JOINED'' (BeaconJoinedPayload user (beacon_id_string b1)) st1;
                 user1 = user\<lparr>user_beacons := user_beacons user @ [beacon_id b1]\<rparr>
             in (Inr b1, st2\<lparr>users := save_user user1 (users st2)\<rparr>)))"

text \<open>
  The guard of \<^verbatim>\<open>createLandmark\<close>, which passes \<^verbatim>\<open>user.id\<close> to \<^verbatim>\<open>includes\<close> and
  compares the leader through \<^verbatim>\<open>toString()\<close>: the resolver returns its
  \<^verbatim>\<open>UserInputError\<close> when the guard is true, that is when the beacon is missing or the
  caller is neither found among the followers nor the leader. The rest of that resolver
  is not needed here.
\<close>

definition createLandmark_guard :: "string \<Rightarrow> user \<Rightarrow> state \<Rightarrow> bool" where
  "createLandmark_guard beaconID_arg user st =
     (case Beacon_findById (beacons st) beaconID_arg of
        None \<Rightarrow> True
      | Some b \<Rightarrow>
          \<not> array_includes (followers b) (JString (user_id_string user))
          \<and> toString (leader b) \<noteq> user_id_string user)"

text \<open>
  \<^verbatim>\<open>updateBeaconLocation\<close>. The beacon is loaded with \<^verbatim>\<open>populate("leader")\<close>, which
  puts the user document with that \<^verbatim>\<open>_id\<close> in place of the reference, or \<^verbatim>\<open>null\<close>
  when no user has it; \<^verbatim>\<open>beacon.leader.id\<close> then reads a property of \<^verbatim>\<open>null\<close>.
\<close>

definition populate_leader :: "user list \<Rightarrow> beacon \<Rightarrow> user option" where
  "populate_leader us b = find (\<lambda>u. user_id u = leader b) us"

definition updateBeaconLocation ::
  "string \<Rightarrow> location \<Rightarrow> user \<Rightarrow> state \<Rightarrow> (error + beacon) \<times> state" where
  "updateBeaconLocation i loc user st =
     (case Beacon_findById (beacons st) i of
        None \<Rightarrow> (Inl (UserInputError ''No beacon exists with that id.''), st)
      | Some b \<Rightarrow>
          (case populate_leader (users st) b of
             None \<Rightarrow> (Inl (TypeError ''Cannot read property id of null''), st)
           | Some l \<Rightarrow>
               if user_id_string l \<noteq> user_id_string user
               then (Inl (Error ''Only the beacon leader can update beacon location''), st)
               else
                 (let st1 = publish ''BEACON_LOCATION''
                              (BeaconLocationPayload loc (beacon_id_string b)) st;
                      b1 = b\<lparr>location := loc\<rparr>
                  in (Inr b1, st1\<lparr>beacons := save_beacon b1 (beacons st1)\<rparr>))))"

text \<open>\<^verbatim>\<open>updateUserLocation\<close>.\<close>

definition updateUserLocation ::
  "string \<Rightarrow> location \<Rightarrow> user \<Rightarrow> state \<Rightarrow> (error + user) \<times> state" where
  "updateUserLocation i loc user st =
     (case Beacon_findById (beacons st) i of
        None \<Rightarrow> (Inl (UserInputError ''No beacon exists with that id.''), st)
      | Some b \<Rightarrow>
          (let user1 = user\<lparr>user_location := Some loc\<rparr>;
               st1 = st\<lparr>users := save_user user1 (users st)\<rparr>
           in (Inr user1,
               publish ''USER_LOCATION'' (UserLocationPayload user1 (beacon_id_string b)) st1)))"

text \<open>\<^verbatim>\<open>changeLeader\<close>. The test is \<^verbatim>\<open>beacon.leader != user.id\<close>, with the loose operator.\<close>

definition changeLeader ::
  "string \<Rightarrow> string \<Rightarrow> user \<Rightarrow> state \<Rightarrow> (error + beacon) \<times> state" where
  "changeLeader beaconID_arg newLeaderID user st =
     (case Beacon_findById (beacons st) beaconID_arg of
        None \<Rightarrow> (Inl (UserInputError ''No beacon exists with that id.''), st)
      | Some b \<Rightarrow>
          if \<not> loose_equals (JObjectId (leader b)) (JString (user_id_string user))
          then (Inl (Error ''Only the beacon leader can update leader''), st)
          else
            (let b1 = b\<lparr>leader := ObjectId newLeaderID\<rparr>
             in (Inr b1, st\<lparr>beacons := save_beacon b1 (beacons st)\<rparr>)))"

section \<open>Subscriptions\<close>

text \<open>
  \<^verbatim>\<open>withFilter(asyncIteratorFn, filterFn)\<close> reads the events of the iterator's topics in
  publication order and yields the payloads on which the filter returns \<^verbatim>\<open>true\<close>. A
  filter that throws rejects the pending read, and the stream ends with that error.
\<close>

fun withFilter ::
  "string list \<Rightarrow> (payload \<Rightarrow> error + bool) \<Rightarrow> (string \<times> payload) list
     \<Rightarrow> payload list \<times> error option" where
  "withFilter topics filterFn [] = ([], None)"
| "withFilter topics filterFn ((t, p) # evs) =
     (if t \<in> set topics
      then (case filterFn p of
              Inl e \<Rightarrow> ([], Some e)
            | Inr ok \<Rightarrow>
                (let (ps, err) = withFilter topics filterFn evs
                 in if ok then (p # ps, err) else (ps, err)))
      else withFilter topics filterFn evs)"

definition beaconLocation_filter :: "string \<Rightarrow> payload \<Rightarrow> error + bool" where
  "beaconLocation_filter variables_id p = Inr (beaconID p = variables_id)"

definition Subscription_beaconLocation ::
  "string \<Rightarrow> (string \<times> payload) list \<Rightarrow> payload list \<times> error option" where
  "Subscription_beaconLocation variables_id =
     withFilter [''BEACON_LOCATION''] (beaconLocation_filter variables_id)"

definition userLocation_filter :: "string \<Rightarrow> user \<Rightarrow> payload \<Rightarrow> error + bool" where
  \<comment> \<open>\<^verbatim>\<open>payload.beaconID === variables.id && payload.userLocation.id !== user.id\<close>\<close>
  "userLocation_filter variables_id user p =
     (if beaconID p = variables_id
      then (case userLocation_of p of
              None \<Rightarrow> Inl (TypeError ''Cannot read property id of undefined'')
            | Some u \<Rightarrow> Inr (user_id_string u \<noteq> user_id_string user))
      else Inr False)"

definition Subscription_userLocation ::
  "string \<Rightarrow> user \<Rightarrow> (string \<times> payload) list \<Rightarrow> payload list \<times> error option" where
  "Subscription_userLocation variables_id user =
     withFilter [''BEACON_LOCATION''] (userLocation_filter variables_id user)"

section \<open>A concrete store\<close>

text \<open>
  Three users and three beacons for evaluating the resolvers: Alice is registered and
  leads the first beacon, Bob follows it, Carol belongs to none. The second beacon
  has expired at time 1000 and the third is far from the first two.
\<close>

definition demo_alice :: user where
  "demo_alice = \<lparr>user_id = ObjectId ''a1'', name = ''Alice'',
     email = Some ''alice@example.org'', password = Some ''hash:secret'',
     user_location = None, user_beacons = [ObjectId ''beacon1'']\<rparr>"

definition demo_bob :: user where
  "demo_bob = \<lparr>user_id = ObjectId ''b2'', name = ''Bob'', email = None, password = None,
     user_location = None, user_beacons = [ObjectId ''beacon1'']\<rparr>"

definition demo_carol :: user where
  "demo_carol = \<lparr>user_id = ObjectId ''c3'', name = ''Carol'', email = None, password = None,
     user_location = None, user_beacons = []\<rparr>"

definition demo_beacon :: beacon where
  "demo_beacon = \<lparr>beacon_id = ObjectId ''beacon1'', shortcode = ''ABCDEF'',
     leader = ObjectId ''a1'', followers = [ObjectId ''b2''],
     location = \<lparr>lat = 10, lon = 20\<rparr>, landmarks = [], expiresAt = 2000\<rparr>"

definition demo_expired :: beacon where
  "demo_expired = \<lparr>beacon_id = ObjectId ''beacon2'', shortcode = ''QRSTUV'',
     leader = ObjectId ''b2'', followers = [],
     location = \<lparr>lat = 11, lon = 21\<rparr>, landmarks = [], expiresAt = 500\<rparr>"

definition demo_far :: beacon where
  "demo_far = \<lparr>beacon_id = ObjectId ''beacon3'', shortcode = ''GHIJKL'',
     leader = ObjectId ''b2'', followers = [],
     location = \<lparr>lat = 9000, lon = 20\<rparr>, landmarks = [], expiresAt = 3000\<rparr>"

definition demo_state :: state where
  "demo_state = \<lparr>users = [demo_alice, demo_bob, demo_carol],
     beacons = [demo_beacon, demo_expired, demo_far], events = [], draws = 0\<rparr>"

definition demo_now :: int where
  "demo_now = 1000"

definition demo_compare :: "string \<Rightarrow> string \<Rightarrow> bool" where
  \<comment> \<open>stands for \<^verbatim>\<open>bcrypt.compare\<close>: the stored hash is the password after a prefix\<close>
  "demo_compare pw h = (h = ''hash:'' @ pw)"

definition demo_nanoid :: "nat \<Rightarrow> string" where
  \<comment> \<open>a generator whose first code is the shortcode of the first beacon\<close>
  "demo_nanoid n = (if n = 0 then ''ABCDEF'' else ''MNOPQR'')"

definition demo_input :: beaconInput where
  "demo_input = \<lparr>input_expiresAt = 5000, startLocation = \<lparr>lat = 1, lon = 2\<rparr>,
     input_leader = None, input_shortcode = None, input_location = None\<rparr>"

text \<open>An input that owns the three keys which the object literal also sets.\<close>

definition demo_input_keys :: beaconInput where
  "demo_input_keys = \<lparr>input_expiresAt = 5000, startLocation = \<lparr>lat = 1, lon = 2\<rparr>,
     input_leader = Some ''a1'', input_shortcode = Some ''MYCODE'',
     input_location = Some \<lparr>lat = 3, lon = 4\<rparr>\<rparr>"

section \<open>Facts about the store and the comparisons\<close>

lemmas demo_defs = demo_state_def demo_alice_def demo_bob_def demo_carol_def
  demo_beacon_def demo_expired_def demo_far_def demo_now_def demo_input_def

lemma toString_inject: "toString x = toString y \<longleftrightarrow> x = y"
  by (cases x; cases y) simp

lemma ObjectId_toString: "ObjectId (toString x) = x"
  by (cases x) simp

text \<open>A document is never found among references; a string is found by its text.\<close>

lemma array_includes_document: "array_includes xs (JUser u) = False"
  by (induction xs) (simp_all add: array_includes_def)

lemma array_includes_string: "array_includes xs (JString s) \<longleftrightarrow> ObjectId s \<in> set xs"
proof (induction xs)
  case Nil
  show ?case by (simp add: array_includes_def)
next
  case (Cons x xs)
  then show ?case by (cases x) (auto simp: array_includes_def)
qed

lemma Beacon_findById_save:
  "Beacon_findById (save_beacon b bs) j =
     (if j = beacon_id_string b then Some b else Beacon_findById bs j)"
  by (induction bs) (auto simp: Beacon_findById_def beacon_id_string_def toString_inject)

lemma Beacon_findById_Some:
  "Beacon_findById bs i = Some b \<Longrightarrow> beacon_id_string b = i \<and> b \<in> set bs"
  by (auto simp: Beacon_findById_def find_Some_iff)

lemma length_save_beacon:
  "Beacon_findById bs i = Some b \<Longrightarrow> beacon_id b1 = beacon_id b \<Longrightarrow>
     length (save_beacon b1 bs) = length bs"
  by (induction bs) (auto simp: Beacon_findById_def split: if_splits)


lemma User_findOne_email_None:
  "User_findOne_email us e = None \<Longrightarrow> u \<in> set us \<Longrightarrow> email u \<noteq> Some e"
  by (auto simp: User_findOne_email_def find_None_iff)

lemma User_findById_Some: "User_findById us s = Some u \<Longrightarrow> u \<in> set us"
  by (auto simp: User_findById_def find_Some_iff in_set_conv_nth)

lemma foldl_nearby_step:
  "foldl (nearby_step w loc) acc bs =
     acc @ filter (\<lambda>b. w \<lparr>lat = lat (location b), lon = lon (location b)\<rparr> loc 1500) bs"
  by (induction bs arbitrary: acc) (simp_all add: nearby_step_def)

lemma withFilter_other_topic:
  "t \<notin> set topics \<Longrightarrow> withFilter topics f (evs @ [(t, p)]) = withFilter topics f evs"
  by (induction topics f evs rule: withFilter.induct) (auto split: sum.splits prod.splits)

section \<open>Reading a beacon\<close>

text \<open>
  The test of \<^verbatim>\<open>Query.beacon\<close> is never true: the stored leader is an object and
  \<^verbatim>\<open>user.id\<close> a string, and the followers are references while \<^verbatim>\<open>user\<close> is a
  document. Every caller is given every beacon that exists.
\<close>

lemma Query_beacon_any_caller:
  "Beacon_findById (beacons st) i = Some b \<Longrightarrow> Query_beacon i user st = Inr b"
  by (simp add: Query_beacon_def array_includes_document)

text \<open>
  C1. The claim: \<^verbatim>\<open>Query.beacon\<close> returns the beacon to a member and fails for a caller
  who is not a member. On the concrete store Carol is neither the leader nor a
  follower of the first beacon, and the resolver returns the beacon to her.
\<close>

theorem Query_beacon_non_member:
  "Query_beacon ''beacon1'' demo_carol demo_state = Inr demo_beacon
   \<and> toString (leader demo_beacon) \<noteq> user_id_string demo_carol
   \<and> user_id demo_carol \<notin> set (followers demo_beacon)"
  by (simp add: Query_beacon_def Beacon_findById_def beacon_id_string_def user_id_string_def
      array_includes_def demo_defs)

section \<open>The stream of user locations\<close>

text \<open>
  \<^verbatim>\<open>updateUserLocation\<close> publishes on \<^verbatim>\<open>USER_LOCATION\<close> and the \<^verbatim>\<open>userLocation\<close>
  subscription reads \<^verbatim>\<open>BEACON_LOCATION\<close>: a call of the mutation never changes what a
  subscriber of \<^verbatim>\<open>userLocation\<close> is given.
\<close>

lemma userLocation_update_never_seen:
  "Subscription_userLocation v u (events (snd (updateUserLocation i loc user st)))
     = Subscription_userLocation v u (events st)"
  by (simp add: Subscription_userLocation_def updateUserLocation_def publish_def Let_def
      withFilter_other_topic split: option.splits)

text \<open>
  What the subscription does read is the leader's update of the beacon location, whose
  payload has no \<^verbatim>\<open>userLocation\<close>: the filter throws and the stream ends.
\<close>

lemma userLocation_stream_ends_on_beacon_update:
  "Subscription_userLocation ''beacon1'' demo_bob
     (events (snd (updateBeaconLocation ''beacon1'' \<lparr>lat = 12, lon = 19\<rparr> demo_alice demo_state)))
   = ([], Some (TypeError ''Cannot read property id of undefined''))"
  by (simp add: updateBeaconLocation_def Subscription_userLocation_def publish_def Let_def
      userLocation_filter_def populate_leader_def
      Beacon_findById_def beacon_id_string_def user_id_string_def demo_defs)

text \<open>
  C2. The claim: a subscriber of \<^verbatim>\<open>userLocation(beaconId)\<close> receives exactly the events
  published by \<^verbatim>\<open>updateUserLocation\<close> for that beacon by another user. On the concrete
  store Bob updates his location for the first beacon; the event is published with
  that beacon's id and Bob's user, and Alice, subscribed to \<^verbatim>\<open>userLocation\<close> of that
  beacon, receives nothing.
\<close>

theorem userLocation_update_not_delivered:
  "events (snd (updateUserLocation ''beacon1'' \<lparr>lat = 12, lon = 19\<rparr> demo_bob demo_state)) =
     [(''USER_LOCATION'',
       UserLocationPayload (demo_bob\<lparr>user_location := Some \<lparr>lat = 12, lon = 19\<rparr>\<rparr>) ''beacon1'')]
   \<and> user_id_string demo_bob \<noteq> user_id_string demo_alice
   \<and> Subscription_userLocation ''beacon1'' demo_alice
       (events (snd (updateUserLocation ''beacon1'' \<lparr>lat = 12, lon = 19\<rparr> demo_bob demo_state)))
     = ([], None)"
  by (simp add: updateUserLocation_def Subscription_userLocation_def publish_def Let_def
      Beacon_findById_def beacon_id_string_def user_id_string_def demo_defs)

section \<open>Creating a beacon\<close>

text \<open>
  C3, as the claim states it, fails: the first beacon of the concrete store is active
  at time 1000 and has the shortcode that the generator returns first. The new beacon
  gets the same shortcode while the first beacon is still stored, and the generator has
  been called once although its next code is a different one.
\<close>

theorem createBeacon_collision:
  "shortcode (fst (createBeacon demo_nanoid (ObjectId ''beacon9'') demo_input demo_carol demo_state))
     = shortcode demo_beacon
   \<and> demo_beacon \<in> set (beacons (snd (createBeacon demo_nanoid (ObjectId ''beacon9'') demo_input
         demo_carol demo_state)))
   \<and> demo_now < expiresAt demo_beacon
   \<and> beacon_id demo_beacon \<noteq> ObjectId ''beacon9''
   \<and> draws (snd (createBeacon demo_nanoid (ObjectId ''beacon9'') demo_input demo_carol demo_state)) = 1
   \<and> demo_nanoid 1 \<noteq> shortcode demo_beacon"
  by (simp add: createBeacon_def spread_def demo_nanoid_def Let_def demo_defs)

text \<open>
  C3, amended. For every \<^verbatim>\<open>createBeacon\<close> call whose input has no shortcode of its own,
  the shortcode of the new beacon is the code returned by one call of the generator,
  whatever beacons are stored: the generator is called exactly once, and the beacon is
  stored with that code.
\<close>

theorem createBeacon_single_draw:
  assumes "input_shortcode input = None"
  shows "shortcode (fst (createBeacon nanoid new_id input user st)) = nanoid (draws st)
       \<and> draws (snd (createBeacon nanoid new_id input user st)) = Suc (draws st)
       \<and> Beacon_findById (beacons (snd (createBeacon nanoid new_id input user st))) (toString new_id)
           = Some (fst (createBeacon nanoid new_id input user st))"
  using assms
  by (simp add: createBeacon_def spread_def Let_def Beacon_findById_save beacon_id_string_def)

theorem createBeacon_single_draw_witness:
  "input_shortcode demo_input = None
   \<and> shortcode (fst (createBeacon demo_nanoid (ObjectId ''beacon9'') demo_input demo_carol demo_state))
       = ''ABCDEF''
   \<and> draws (snd (createBeacon demo_nanoid (ObjectId ''beacon9'') demo_input demo_carol demo_state)) = 1"
proof -
  have a: "input_shortcode demo_input = None" by (simp add: demo_defs)
  show ?thesis
    using a createBeacon_single_draw [OF a, of demo_nanoid "ObjectId ''beacon9''" demo_carol demo_state]
    by (simp add: demo_nanoid_def demo_state_def)
qed

section \<open>Updating the beacon location\<close>





section \<open>Logging in\<close>




section \<open>Joining a beacon\<close>

text \<open>
  The test \<^verbatim>\<open>beacon.followers.includes(user)\<close> is never true, so \<^verbatim>\<open>joinBeacon\<close>
  appends the caller to the followers of every beacon it finds. The test of
  \<^verbatim>\<open>createLandmark\<close>, with \<^verbatim>\<open>user.id\<close>, does tell a follower from a stranger.
\<close>

lemma joinBeacon_never_rejects:
  "Beacon_findOne_shortcode (beacons st) code = Some b \<Longrightarrow>
     fst (joinBeacon code user st) = Inr (b\<lparr>followers := followers b @ [user_id user]\<rparr>)"
  by (simp add: joinBeacon_def array_includes_document Let_def)

lemma createLandmark_accepts_follower:
  "\<not> createLandmark_guard ''beacon1'' demo_bob demo_state
   \<and> createLandmark_guard ''beacon1'' demo_carol demo_state"
  by (simp add: createLandmark_guard_def Beacon_findById_def array_includes_def
      beacon_id_string_def user_id_string_def demo_defs)

text \<open>
  C6. The claim: a second \<^verbatim>\<open>joinBeacon\<close> by a user who already follows the beacon
  returns an error and adds no duplicate. On the concrete store Carol joins the first
  beacon; she is then stored with that beacon, and her second call with the same
  shortcode returns the beacon with her id twice among the followers.
\<close>

theorem joinBeacon_twice:
  "fst (joinBeacon ''ABCDEF'' demo_carol demo_state)
     = Inr (demo_beacon\<lparr>followers := [ObjectId ''b2'', ObjectId ''c3'']\<rparr>)
   \<and> User_findById (users (snd (joinBeacon ''ABCDEF'' demo_carol demo_state))) ''c3''
     = Some (demo_carol\<lparr>user_beacons := [ObjectId ''beacon1'']\<rparr>)
   \<and> fst (joinBeacon ''ABCDEF'' (demo_carol\<lparr>user_beacons := [ObjectId ''beacon1'']\<rparr>)
          (snd (joinBeacon ''ABCDEF'' demo_carol demo_state)))
     = Inr (demo_beacon\<lparr>followers := [ObjectId ''b2'', ObjectId ''c3'', ObjectId ''c3'']\<rparr>)"
  by (simp add: joinBeacon_def Beacon_findOne_shortcode_def User_findById_def array_includes_def
      publish_def beacon_id_string_def user_id_string_def Let_def demo_defs)

section \<open>Finding nearby beacons\<close>

text \<open>
  C7. \<^verbatim>\<open>nearbyBeacons\<close> returns the stored beacons whose \<^verbatim>\<open>expiresAt\<close> is not before the
  current time and whose location is within 1500 metres of the query point, in stored
  order, and nothing else; a beacon that expired before the current time is not in the
  result.
\<close>

theorem nearbyBeacons_exact:
  "nearbyBeacons w now loc st =
     filter (\<lambda>b. now \<le> expiresAt b \<and> w \<lparr>lat = lat (location b), lon = lon (location b)\<rparr> loc 1500)
       (beacons st)
   \<and> (\<forall>b. expiresAt b < now \<longrightarrow> b \<notin> set (nearbyBeacons w now loc st))"
  by (auto simp: nearbyBeacons_def Beacon_find_active_def foldl_nearby_step)

theorem nearbyBeacons_exact_witness:
  "nearbyBeacons demo_within demo_now \<lparr>lat = 12, lon = 19\<rparr> demo_state = [demo_beacon]
   \<and> expiresAt demo_expired < demo_now
   \<and> demo_expired \<notin> set (nearbyBeacons demo_within demo_now \<lparr>lat = 12, lon = 19\<rparr> demo_state)"
  using nearbyBeacons_exact [of demo_within demo_now "\<lparr>lat = 12, lon = 19\<rparr>" demo_state]
  by (simp add: demo_defs demo_within_def)

section \<open>Changing the leader\<close>

text \<open>
  C8. For a beacon that exists: when the caller is its leader, \<^verbatim>\<open>changeLeader\<close> returns
  and stores the beacon with \<^verbatim>\<open>leader\<close> set to the new id and every other field, the
  followers among them, as it was; every other beacon, the users and the events are
  as before. When the caller is not its leader, the call returns the error
  \<^verbatim>\<open>Only the beacon leader can update leader\<close> and the state is unchanged.
\<close>

theorem changeLeader_frame:
  assumes "Beacon_findById (beacons st) i = Some b"
  shows "(toString (leader b) = user_id_string user \<longrightarrow>
            fst (changeLeader i new user st) = Inr (b\<lparr>leader := ObjectId new\<rparr>)
          \<and> followers (b\<lparr>leader := ObjectId new\<rparr>) = followers b
          \<and> Beacon_findById (beacons (snd (changeLeader i new user st))) i
              = Some (b\<lparr>leader := ObjectId new\<rparr>)
          \<and> (\<forall>j. j \<noteq> i \<longrightarrow> Beacon_findById (beacons (snd (changeLeader i new user st))) j
                              = Beacon_findById (beacons st) j)
          \<and> length (beacons (snd (changeLeader i new user st))) = length (beacons st)
          \<and> users (snd (changeLeader i new user st)) = users st
          \<and> events (snd (changeLeader i new user st)) = events st
          \<and> draws (snd (changeLeader i new user st)) = draws st)
       \<and> (toString (leader b) \<noteq> user_id_string user \<longrightarrow>
            changeLeader i new user st
              = (Inl (Error ''Only the beacon leader can update leader''), st))"
proof -
  have i: "beacon_id_string b = i"
    using assms by (simp add: Beacon_findById_Some)
  have len: "length (save_beacon (b\<lparr>leader := ObjectId new\<rparr>) (beacons st)) = length (beacons st)"
    using assms by (rule length_save_beacon) simp
  show ?thesis
    using assms i len
    by (simp add: changeLeader_def Let_def Beacon_findById_save beacon_id_string_def)
qed

theorem changeLeader_frame_witness:
  "Beacon_findById (beacons demo_state) ''beacon1'' = Some demo_beacon
   \<and> toString (leader demo_beacon) = user_id_string demo_alice
   \<and> changeLeader ''beacon1'' ''c3'' demo_alice demo_state
       = (Inr (demo_beacon\<lparr>leader := ObjectId ''c3''\<rparr>),
          demo_state\<lparr>beacons := [demo_beacon\<lparr>leader := ObjectId ''c3''\<rparr>, demo_expired, demo_far]\<rparr>)
   \<and> followers (demo_beacon\<lparr>leader := ObjectId ''c3''\<rparr>) = [ObjectId ''b2'']
   \<and> toString (leader demo_beacon) \<noteq> user_id_string demo_bob
   \<and> changeLeader ''beacon1'' ''b2'' demo_bob demo_state
       = (Inl (Error ''Only the beacon leader can update leader''), demo_state)"
proof -
  have a: "Beacon_findById (beacons demo_state) ''beacon1'' = Some demo_beacon"
    by (simp add: Beacon_findById_def beacon_id_string_def demo_defs)
  have b: "toString (leader demo_beacon) = user_id_string demo_alice"
    by (simp add: user_id_string_def demo_defs)
  have c: "toString (leader demo_beacon) \<noteq> user_id_string demo_bob"
    by (simp add: user_id_string_def demo_defs)
  have d: "changeLeader ''beacon1'' ''c3'' demo_alice demo_state
       = (Inr (demo_beacon\<lparr>leader := ObjectId ''c3''\<rparr>),
          demo_state\<lparr>beacons := [demo_beacon\<lparr>leader := ObjectId ''c3''\<rparr>, demo_expired, demo_far]\<rparr>)"
    by (simp add: changeLeader_def Beacon_findById_def beacon_id_string_def user_id_string_def
        Let_def demo_defs)
  have e: "followers (demo_beacon\<lparr>leader := ObjectId ''c3''\<rparr>) = [ObjectId ''b2'']"
    by (simp add: demo_defs)
  show ?thesis
    using a b c d e changeLeader_frame [OF a, of demo_bob "''b2''"] by simp
qed

section \<open>Keys of the input that replace the generated fields\<close>

text \<open>
  C9. \<^verbatim>\<open>createBeacon\<close> gives the new beacon the caller as leader, the generated code as
  shortcode and the start location as location, each when the input has no key of that
  name; a key \<^verbatim>\<open>leader\<close>, \<^verbatim>\<open>shortcode\<close> or \<^verbatim>\<open>location\<close> of the input replaces the
  generated value, and there is an input for which all three differ from the generated
  ones.
\<close>

theorem createBeacon_spread:
  "(input_leader input = None \<longrightarrow>
      leader (fst (createBeacon nanoid new_id input user st)) = user_id user)
   \<and> (input_shortcode input = None \<longrightarrow>
      shortcode (fst (createBeacon nanoid new_id input user st)) = nanoid (draws st))
   \<and> (input_location input = None \<longrightarrow>
      location (fst (createBeacon nanoid new_id input user st)) = startLocation input)
   \<and> (\<forall>l. input_leader input = Some l \<longrightarrow>
      leader (fst (createBeacon nanoid new_id input user st)) = ObjectId l)
   \<and> (\<forall>c. input_shortcode input = Some c \<longrightarrow>
      shortcode (fst (createBeacon nanoid new_id input user st)) = c)
   \<and> (\<forall>p. input_location input = Some p \<longrightarrow>
      location (fst (createBeacon nanoid new_id input user st)) = p)
   \<and> (\<exists>other. leader (fst (createBeacon nanoid new_id other user st)) \<noteq> user_id user
        \<and> shortcode (fst (createBeacon nanoid new_id other user st)) \<noteq> nanoid (draws st)
        \<and> location (fst (createBeacon nanoid new_id other user st)) \<noteq> startLocation other)"
proof -
  let ?other = "\<lparr>input_expiresAt = 0, startLocation = \<lparr>lat = 0, lon = 0\<rparr>,
      input_leader = Some (CHR ''x'' # user_id_string user),
      input_shortcode = Some (CHR ''x'' # nanoid (draws st)),
      input_location = Some \<lparr>lat = 1, lon = 0\<rparr>\<rparr>"
  have "leader (fst (createBeacon nanoid new_id ?other user st)) \<noteq> user_id user
        \<and> shortcode (fst (createBeacon nanoid new_id ?other user st)) \<noteq> nanoid (draws st)
        \<and> location (fst (createBeacon nanoid new_id ?other user st)) \<noteq> startLocation ?other"
    by (cases "user_id user") (simp add: createBeacon_def spread_def Let_def user_id_string_def)
  then have "\<exists>other. leader (fst (createBeacon nanoid new_id other user st)) \<noteq> user_id user
        \<and> shortcode (fst (createBeacon nanoid new_id other user st)) \<noteq> nanoid (draws st)
        \<and> location (fst (createBeacon nanoid new_id other user st)) \<noteq> startLocation other"
    by blast
  then show ?thesis
    by (simp add: createBeacon_def spread_def Let_def user_id_string_def ObjectId_toString)
qed

theorem createBeacon_spread_witness:
  "input_leader demo_input = None \<and> input_shortcode demo_input = None
   \<and> input_location demo_input = None
   \<and> fst (createBeacon demo_nanoid (ObjectId ''beacon9'') demo_input demo_carol demo_state)
       = \<lparr>beacon_id = ObjectId ''beacon9'', shortcode = ''ABCDEF'', leader = ObjectId ''c3'',
          followers = [], location = \<lparr>lat = 1, lon = 2\<rparr>, landmarks = [], expiresAt = 5000\<rparr>
   \<and> leader (fst (createBeacon demo_nanoid (ObjectId ''beacon9'') demo_input_keys demo_carol
        demo_state)) = ObjectId ''a1''
   \<and> shortcode (fst (createBeacon demo_nanoid (ObjectId ''beacon9'') demo_input_keys demo_carol
        demo_state)) = ''MYCODE''
   \<and> location (fst (createBeacon demo_nanoid (ObjectId ''beacon9'') demo_input_keys demo_carol
        demo_state)) = \<lparr>lat = 3, lon = 4\<rparr>"
proof -
  have a: "input_leader demo_input = None \<and> input_shortcode demo_input = None
      \<and> input_location demo_input = None"
    by (simp add: demo_defs)
  have b: "input_leader demo_input_keys = Some ''a1''
      \<and> input_shortcode demo_input_keys = Some ''MYCODE''
      \<and> input_location demo_input_keys = Some \<lparr>lat = 3, lon = 4\<rparr>"
    by (simp add: demo_input_keys_def)
  have c: "fst (createBeacon demo_nanoid (ObjectId ''beacon9'') demo_input demo_carol demo_state)
       = \<lparr>beacon_id = ObjectId ''beacon9'', shortcode = ''ABCDEF'', leader = ObjectId ''c3'',
          followers = [], location = \<lparr>lat = 1, lon = 2\<rparr>, landmarks = [], expiresAt = 5000\<rparr>"
    by (simp add: createBeacon_def spread_def Let_def user_id_string_def demo_nanoid_def demo_defs)
  show ?thesis
    using a b c
      createBeacon_spread [of demo_input_keys demo_nanoid "ObjectId ''beacon9''" demo_carol demo_state]
    by simp
qed

section \<open>Logging in as a user who is not stored\<close>

text \<open>
  C10. A \<^verbatim>\<open>login\<close> call whose id (not empty) is the id of no stored user, or whose
  credentials carry an email of no stored user, returns an error, \<^verbatim>\<open>User not found.\<close>
  or \<^verbatim>\<open>credentials don't match\<close>, and so no token.
\<close>

theorem login_unknown_user:
  assumes "(\<exists>s. i = Some s \<and> s \<noteq> [] \<and> User_findById (users st) s = None)
         \<or> (\<exists>c. creds = Some c \<and> User_findOne_email (users st) (cred_email c) = None)"
  shows "login bcrypt_compare i creds st = Inl (Error ''User not found.'')
       \<or> login bcrypt_compare i creds st = Inl (AuthenticationError ''credentials don't match'')"
  using assms
proof (elim disjE exE conjE)
  fix s assume "i = Some s" "s \<noteq> []" "User_findById (users st) s = None"
  then show ?thesis by (simp add: login_def login_find_user_def)
next
  fix c assume c: "creds = Some c" "User_findOne_email (users st) (cred_email c) = None"
  show ?thesis
  proof (cases "login_find_user i creds st")
    case None
    with c show ?thesis by (simp add: login_def)
  next
    case (Some u)
    with c have "u \<in> set (users st)"
      by (auto simp: login_find_user_def split: option.splits if_splits bool.splits
          dest: User_findById_Some)
    with c have "email u \<noteq> Some (cred_email c)" by (blast dest: User_findOne_email_None)
    with c Some show ?thesis by (simp add: login_def)
  qed
qed

theorem login_unknown_user_witness:
  "User_findById (users demo_state) ''zz'' = None
   \<and> login demo_compare (Some ''zz'') None demo_state = Inl (Error ''User not found.'')
   \<and> User_findOne_email (users demo_state) ''nobody@example.org'' = None
   \<and> login demo_compare (Some ''a1'')
        (Some \<lparr>cred_email = ''nobody@example.org'', cred_password = ''secret''\<rparr>) demo_state
      = Inl (AuthenticationError ''credentials don't match'')"
proof -
  have a: "User_findById (users demo_state) ''zz'' = None"
    by (simp add: User_findById_def user_id_string_def demo_defs)
  have b: "User_findOne_email (users demo_state) ''nobody@example.org'' = None"
    by (simp add: User_findOne_email_def demo_defs)
  have h: "(\<exists>s. Some ''zz'' = Some s \<and> s \<noteq> [] \<and> User_findById (users demo_state) s = None)
         \<or> (\<exists>c. (None :: credentials option) = Some c
               \<and> User_findOne_email (users demo_state) (cred_email c) = None)"
    using a by simp
  have c: "login demo_compare (Some ''zz'') None demo_state \<noteq>
             Inl (AuthenticationError ''credentials don't match'')"
    by (simp add: login_def login_find_user_def a)
  have d: "login demo_compare (Some ''a1'')
        (Some \<lparr>cred_email = ''nobody@example.org'', cred_password = ''secret''\<rparr>) demo_state
      = Inl (AuthenticationError ''credentials don't match'')"
    by (simp add: login_def login_find_user_def User_findById_def user_id_string_def demo_defs)
  show ?thesis
    using a b c d login_unknown_user [OF h, of demo_compare] by simp
qed

end
